theory Spec2Isabelle
  imports Complex_Main "HOL-Library.Sublist" "HOL-Library.Multiset" "HOL-Library.Log_Nat"
begin

section \<open>Finance tracker front end: helpers, API client and statement import\<close>

text \<open>
  The repository holds three revisions of one React application: the current one at the
  head of \<^verbatim>\<open>src/App.jsx\<close> (lines 1-1346), an early one in the same file (from line
  1348), and an intermediate one in \<^verbatim>\<open>unnamed/part_000\<close>. Each definition below
  names the revision and the function it is taken from.

  Amounts are JavaScript numbers in the source, that is IEEE-754 doubles. Here a number
  is a value of the type \<open>double\<close>, and every sum and quotient is rounded to the nearest
  double as the source's is.
\<close>

subsection \<open>Numbers as text\<close>

definition digit_char :: "nat \<Rightarrow> char" where
  "digit_char n = ''0123456789'' ! (n mod 10)"

text \<open>The decimal digits of a non-negative integer, as \<^verbatim>\<open>String(n)\<close> gives them.\<close>

fun string_of_nat :: "nat \<Rightarrow> string" where
  "string_of_nat n =
     (if n < 10 then [digit_char n] else string_of_nat (n div 10) @ [digit_char (n mod 10)])"

declare string_of_nat.simps [simp del]

text \<open>An integer inside a template literal: \<^verbatim>\<open>`${fy}`\<close>.\<close>

definition String_num :: "int \<Rightarrow> string" where
  "String_num i =
     (if i < 0 then CHR ''-'' # string_of_nat (nat (- i)) else string_of_nat (nat i))"

text \<open>\<^verbatim>\<open>s.padStart(n, c)\<close> with a one-character filler.\<close>

definition padStart :: "nat \<Rightarrow> char \<Rightarrow> string \<Rightarrow> string" where
  "padStart n c s = replicate (n - length s) c @ s"

text \<open>
  The same digits, computed on integers, for the long digit strings of the number
  formatters.
\<close>

function digits_of :: "int \<Rightarrow> string" where
  "digits_of n =
     (if n < 10 then [digit_char (nat n)]
      else digits_of (n div 10) @ [digit_char (nat (n mod 10))])"
  by pat_completeness auto
termination
  by (relation "measure nat") auto

declare digits_of.simps [simp del]

subsection \<open>Double-precision numbers\<close>

text \<open>
  A JavaScript number: a finite value, given by the rational it stands for, one of the
  two infinities, or \<^verbatim>\<open>NaN\<close>. The two zeros are one value here: a negative zero cannot
  reach any result below, since every sum starts from \<^verbatim>\<open>0\<close> and \<^verbatim>\<open>fmt\<close> replaces a
  falsy number by \<^verbatim>\<open>0\<close>.
\<close>

datatype double = Fin rat | PInf | NInf | NaN

text \<open>The exponent of a positive rational: the \<open>e\<close> with \<open>2^e \<le> a < 2^(e+1)\<close>.\<close>

definition ilog2 :: "rat \<Rightarrow> int" where
  "ilog2 a = (if 1 \<le> a then bitlen \<lfloor>a\<rfloor> - 1 else - bitlen (\<lceil>1 / a\<rceil> - 1))"

text \<open>The nearest integer, the even one on a tie.\<close>

definition round_even :: "rat \<Rightarrow> int" where
  "round_even q =
     (let f = \<lfloor>q\<rfloor>; r = q - of_int f
      in if r < 1 / 2 then f else if 1 / 2 < r then f + 1 else if even f then f else f + 1)"

text \<open>
  Rounding of an exact result to binary64, to nearest and to even on a tie: 53 significant
  bits, the least exponent \<open>-1022\<close> (below it the spacing stays \<open>2^-1074\<close>), and
  an infinity from \<open>2^1024\<close> on.
\<close>

definition round_double :: "rat \<Rightarrow> double" where
  "round_double x =
     (if x = 0 then Fin 0
      else
        (let a = \<bar>x\<bar>;
             e = max (ilog2 a) (- 1022);
             m = round_even (a * power_int 2 (52 - e))
         in if 1024 \<le> e \<or> (e = 1023 \<and> m = 2 ^ 53) then (if x < 0 then NInf else PInf)
            else Fin ((if x < 0 then - 1 else 1) * of_int m * power_int 2 (e - 52))))"


text \<open>\<^verbatim>\<open>Math.abs\<close>.\<close>

fun dabs :: "double \<Rightarrow> double" where
  "dabs (Fin a) = Fin \<bar>a\<bar>"
| "dabs PInf = PInf"
| "dabs NInf = PInf"
| "dabs NaN = NaN"



text \<open>\<^verbatim>\<open>x / c\<close> for a positive constant \<open>c\<close>.\<close>

fun ddiv :: "double \<Rightarrow> rat \<Rightarrow> double" where
  "ddiv (Fin a) c = round_double (a / c)"
| "ddiv PInf c = PInf"
| "ddiv NInf c = NInf"
| "ddiv NaN c = NaN"

text \<open>Truthiness of a number: zero and \<^verbatim>\<open>NaN\<close> are falsy.\<close>

fun truthy :: "double \<Rightarrow> bool" where
  "truthy (Fin a) = (a \<noteq> 0)"
| "truthy PInf = True"
| "truthy NInf = True"
| "truthy NaN = False"

text \<open>\<^verbatim>\<open>x >= c\<close> for a constant \<open>c\<close>.\<close>

fun dge :: "double \<Rightarrow> rat \<Rightarrow> bool" where
  "dge (Fin a) c = (c \<le> a)"
| "dge PInf c = True"
| "dge NInf c = False"
| "dge NaN c = False"




subsection \<open>Numbers formatted\<close>

text \<open>
  The shortest decimal digits that read back as the number \<open>a\<close>, for \<open>a\<close> of at
  least \<open>2^53\<close> (a whole number then): pairs \<open>(s, n)\<close> of a \<open>k\<close>-digit integer
  \<open>s\<close> and a position \<open>n\<close> with \<open>s * 10^(n-k)\<close> rounding to \<open>a\<close>. The search
  takes the least \<open>k\<close> that has such a pair, up to the 17 digits that always suffice, and
  of several pairs the one nearest to \<open>a\<close>.
\<close>

definition digit_candidates :: "rat \<Rightarrow> nat \<Rightarrow> (int \<times> nat) list" where
  "digit_candidates a k =
     (let n10 = length (digits_of \<lfloor>a\<rfloor>)
      in concat (map (\<lambda>n.
           map (\<lambda>s. (s, n))
             (filter (\<lambda>s. 10 ^ (k - 1) \<le> s \<and> s < 10 ^ k
                           \<and> round_double (of_int s * 10 ^ (n - k)) = Fin a)
                [\<lfloor>a / 10 ^ (n - k)\<rfloor>, \<lfloor>a / 10 ^ (n - k)\<rfloor> + 1]))
           [n10, n10 + 1]))"

fun first_candidates :: "rat \<Rightarrow> nat list \<Rightarrow> nat \<times> (int \<times> nat) list" where
  "first_candidates a [] = (0, [])"
| "first_candidates a (k # ks) =
     (case digit_candidates a k of [] \<Rightarrow> first_candidates a ks | c # cs \<Rightarrow> (k, c # cs))"

definition closer :: "rat \<Rightarrow> nat \<Rightarrow> int \<times> nat \<Rightarrow> int \<times> nat \<Rightarrow> int \<times> nat" where
  "closer a k d c =
     (let dc = \<bar>of_int (fst c) * 10 ^ (snd c - k) - a\<bar>;
          dd = \<bar>of_int (fst d) * 10 ^ (snd d - k) - a\<bar>
      in if dd < dc \<or> (dd = dc \<and> even (fst d)) then d else c)"

definition shortest_digits :: "rat \<Rightarrow> nat \<times> int \<times> nat" where
  "shortest_digits a =
     (case first_candidates a [1 ..< 18] of
        (k, []) \<Rightarrow> (k, 0, 0)
      | (k, c # cs) \<Rightarrow> (k, fold (closer a k) cs c))"

text \<open>
  \<^verbatim>\<open>String(x)\<close> for a finite \<open>x\<close> of at least \<open>10^21\<close>: exponent notation, one
  digit before the point.
\<close>

definition Number_toString_large :: "rat \<Rightarrow> string" where
  "Number_toString_large a =
     (let (k, s, n) = shortest_digits a;
          ds = digits_of s
      in (if k = 1 then ds else hd ds # ''.'' @ tl ds) @ ''e+'' @ string_of_nat (n - 1))"

text \<open>
  \<^verbatim>\<open>x.toFixed(f)\<close>: for a finite \<open>x\<close> below \<open>10^21\<close> in magnitude the sign, then
  the integer \<open>n\<close> nearest to \<open>|x| * 10^f\<close> (the larger one on a tie), written with
  \<open>f\<close> digits after the point; from \<open>10^21\<close> on, and for a number that is not
  finite, what \<^verbatim>\<open>String(x)\<close> gives.
\<close>

definition toFixed :: "nat \<Rightarrow> double \<Rightarrow> string" where
  "toFixed f d =
     (case d of
        NaN \<Rightarrow> ''NaN''
      | PInf \<Rightarrow> ''Infinity''
      | NInf \<Rightarrow> ''-Infinity''
      | Fin x \<Rightarrow>
          (let s = (if x < 0 then ''-'' else '''');
               ax = \<bar>x\<bar>
           in if 10 ^ 21 \<le> ax then s @ Number_toString_large ax
              else
                (let n = \<lfloor>ax * 10 ^ f + 1 / 2\<rfloor>;
                     m = padStart (f + 1) CHR ''0'' (digits_of n);
                     k = length m
                 in s @ (if f = 0 then m else take (k - f) m @ ''.'' @ drop (k - f) m))))"

text \<open>
  Digit grouping of the \<^verbatim>\<open>en-IN\<close> locale: the last three digits, then groups of two.
  \<open>pairs_rev\<close> works on the reversed digits that are left of the last three.
\<close>

fun pairs_rev :: "string \<Rightarrow> string" where
  "pairs_rev (a # b # c # rest) = a # b # CHR '','' # pairs_rev (c # rest)"
| "pairs_rev ds = ds"

definition group_en_IN :: "string \<Rightarrow> string" where
  "group_en_IN ds =
     (let r = rev ds
      in if length r \<le> 3 then ds else rev (take 3 r @ CHR '','' # pairs_rev (drop 3 r)))"

text \<open>The infinity sign, in UTF-8.\<close>

definition infinity_sign :: string where
  "infinity_sign = [CHR 0xE2, CHR 0x88, CHR 0x9E]"

text \<open>
  \<^verbatim>\<open>num.toLocaleString("en-IN", { maximumFractionDigits: 0 })\<close>: rounded to a whole
  number (a tie goes away from zero), grouped, with the sign of \<open>num\<close>. From \<open>2^53\<close>
  on the digits are the shortest ones that read back as the number, followed by zeros.
\<close>

definition toLocaleString_en_IN_0 :: "double \<Rightarrow> string" where
  "toLocaleString_en_IN_0 d =
     (case d of
        NaN \<Rightarrow> ''NaN''
      | PInf \<Rightarrow> infinity_sign
      | NInf \<Rightarrow> ''-'' @ infinity_sign
      | Fin x \<Rightarrow>
          (if x < 0 then ''-'' else '''')
          @ group_en_IN
              (if \<bar>x\<bar> < 2 ^ 53 then digits_of \<lfloor>\<bar>x\<bar> + 1 / 2\<rfloor>
               else (let (k, s, n) = shortest_digits \<bar>x\<bar>
                     in digits_of s @ replicate (n - k) CHR ''0'')))"

subsection \<open>Currency abbreviation: \<^verbatim>\<open>fmt\<close>\<close>

text \<open>
  \<^verbatim>\<open>fmt\<close> of \<^verbatim>\<open>src/App.jsx\<close>, lines 11-18 (the early revision at lines 1348-1355 is
  the same text). The argument is the value of \<^verbatim>\<open>parseFloat(n)\<close>; \<^verbatim>\<open>|| 0\<close> turns a
  falsy one into zero. The unit follows the digits without a space.
\<close>

definition fmt :: "double \<Rightarrow> string" where
  "fmt n =
     (let num = (if truthy n then n else Fin 0);
          abs = dabs num
      in if dge abs 10000000 then toFixed 2 (ddiv num 10000000) @ ''Cr''
         else if dge abs 100000 then toFixed 2 (ddiv num 100000) @ ''L''
         else if dge abs 1000 then toFixed 1 (ddiv num 1000) @ ''K''
         else toLocaleString_en_IN_0 num)"

text \<open>
  \<^verbatim>\<open>fmt\<close> of \<^verbatim>\<open>unnamed/part_000\<close>, lines 11-18: the same thresholds, with a space
  before the unit.
\<close>

definition fmt_part_000 :: "double \<Rightarrow> string" where
  "fmt_part_000 n =
     (let num = (if truthy n then n else Fin 0);
          abs = dabs num
      in if dge abs 10000000 then toFixed 2 (ddiv num 10000000) @ '' Cr''
         else if dge abs 100000 then toFixed 2 (ddiv num 100000) @ '' L''
         else if dge abs 1000 then toFixed 1 (ddiv num 1000) @ '' K''
         else toLocaleString_en_IN_0 num)"

subsection \<open>Financial year and month ranges\<close>

record date_range =
  start :: string
  end' :: string

text \<open>\<^verbatim>\<open>getFYRange\<close>, \<^verbatim>\<open>src/App.jsx\<close> line 30.\<close>

definition getFYRange :: "int \<Rightarrow> date_range" where
  "getFYRange fy =
     \<lparr> start = String_num fy @ ''-04-01'', end' = String_num (fy + 1) @ ''-03-31'' \<rparr>"

definition MONTHS :: "string list" where
  "MONTHS = [''Apr'', ''May'', ''Jun'', ''Jul'', ''Aug'', ''Sep'',
             ''Oct'', ''Nov'', ''Dec'', ''Jan'', ''Feb'', ''Mar'']"

text \<open>
  \<^verbatim>\<open>getMonthRange\<close>, \<^verbatim>\<open>src/App.jsx\<close> lines 33-40 (the same in
  \<^verbatim>\<open>unnamed/part_000\<close>, lines 51-59). \<open>monthIdx\<close> is an index into \<open>MONTHS\<close>,
  as the month buttons of \<^verbatim>\<open>FYSelector\<close> pass it.
\<close>

definition getMonthRange :: "int \<Rightarrow> nat \<Rightarrow> date_range" where
  "getMonthRange fy monthIdx =
     (let year = (if monthIdx < 9 then fy else fy + 1);
          month = ((monthIdx + 3) mod 12) + 1;
          start = String_num year @ ''-'' @ padStart 2 CHR ''0'' (string_of_nat month) @ ''-01'';
          nm = (if month = 12 then 1 else month + 1);
          ny = (if month = 12 then year + 1 else year)
      in \<lparr> start = start,
           end' = String_num ny @ ''-'' @ padStart 2 CHR ''0'' (string_of_nat nm) @ ''-01'' \<rparr>)"

subsection \<open>Transaction classification\<close>

text \<open>
  The two fields of a transaction that its row reads to decide sign and colour. Account
  types are the strings the server sends.
\<close>

record transaction =
  debit_account_type :: string
  credit_account_type :: string

text \<open>
  The sign shown before the amount: a minus, a plus, or a two-headed arrow. The colours
  are the theme's \<^verbatim>\<open>danger\<close>, \<^verbatim>\<open>success\<close> and \<^verbatim>\<open>info\<close>.
\<close>

datatype sign = Minus | Plus | Arrow

datatype colour = Danger | Success | Info

datatype label = Expense_label | Income_label | Transfer_label

text \<open>\<^verbatim>\<open>TransactionsTab\<close>, \<^verbatim>\<open>src/App.jsx\<close> lines 606-608 and 629.\<close>

definition isExp :: "transaction \<Rightarrow> bool" where
  "isExp tx = (debit_account_type tx = ''Expense'')"

definition isInc :: "transaction \<Rightarrow> bool" where
  "isInc tx = (credit_account_type tx = ''Income'')"

definition isTransfer :: "transaction \<Rightarrow> bool" where
  "isTransfer tx = (\<not> isExp tx \<and> \<not> isInc tx)"

definition amtColor :: "transaction \<Rightarrow> colour" where
  "amtColor tx = (if isExp tx then Danger else if isInc tx then Success else Info)"

definition sign :: "transaction \<Rightarrow> sign" where
  "sign tx = (if isExp tx then Minus else if isInc tx then Plus else Arrow)"

text \<open>
  \<^verbatim>\<open>DashboardTab\<close>, recent transactions, \<^verbatim>\<open>src/App.jsx\<close> lines 440 and 447: the
  same chain, with no sign at all where the list of transactions shows the arrow.
\<close>

definition recent_sign :: "transaction \<Rightarrow> sign option" where
  "recent_sign tx = (if isExp tx then Some Minus else if isInc tx then Some Plus else None)"

text \<open>The label a row carries is read off the sign it shows.\<close>

definition classify :: "transaction \<Rightarrow> label" where
  "classify tx =
     (case sign tx of Minus \<Rightarrow> Expense_label | Plus \<Rightarrow> Income_label | Arrow \<Rightarrow> Transfer_label)"

subsection \<open>Net worth\<close>

text \<open>
  A balance field of an account as the client receives it: missing (\<^verbatim>\<open>null\<close>,
  \<^verbatim>\<open>undefined\<close> or the empty string), a JSON number, or a non-empty string such
  as \<^verbatim>\<open>"1250.00"\<close>, given by the number \<^verbatim>\<open>parseFloat\<close> reads from it
  (\<^verbatim>\<open>NaN\<close> for a string that holds no number).
\<close>

datatype balance_field = Absent | Number double | Text double

record account =
  account_type :: string
  calculated_balance :: balance_field
  current_balance :: balance_field





















text \<open>
  Sample accounts: a bank account whose computed balance arrives as text, a loan with a
  negative computed balance, and cash whose computed balance is the number zero, so that
  the opening balance is used; then two accounts with balances in paise, \<^verbatim>\<open>"0.01"\<close> and
  \<^verbatim>\<open>"2.48"\<close>, each the double nearest to the decimal fraction.
\<close>

definition acc_bank :: account where
  "acc_bank =
     \<lparr> account_type = ''Asset'', calculated_balance = Text (Fin 1200),
       current_balance = Number (Fin 1000) \<rparr>"





subsection \<open>The shared API client\<close>

text \<open>A promise that has settled: fulfilled with a value, or rejected with an error message.\<close>

datatype 'a outcome = Resolved 'a | Rejected string

text \<open>
  What \<^verbatim>\<open>res.json()\<close> finds in a response: a body that is not JSON (the promise
  rejects with a \<^verbatim>\<open>SyntaxError\<close> of the given message); the JSON value \<^verbatim>\<open>null\<close>
  (reading \<^verbatim>\<open>data.error\<close> then raises a \<^verbatim>\<open>TypeError\<close>, whose engine-specific message
  is given); or any other JSON value, with its \<^verbatim>\<open>error\<close> property when that is a
  string. Other types of the \<^verbatim>\<open>error\<close> property are not modelled.
\<close>

datatype body = NotJson string | JsonNull string | Json "string option"

text \<open>A response, with \<^verbatim>\<open>res.status\<close> as \<open>status_code\<close>.\<close>

record response =
  status_code :: nat
  body :: body

text \<open>
  \<^verbatim>\<open>fetch\<close> either rejects, with the message of the browser's error (Chromium's is
  \<^verbatim>\<open>Failed to fetch\<close>), or resolves with a response.
\<close>

datatype fetch_outcome = NetworkFailure string | Responded response

definition ok :: "response \<Rightarrow> bool" where
  "ok res = (200 \<le> status_code res \<and> status_code res \<le> 299)"

text \<open>\<^verbatim>\<open>s.includes(p)\<close>.\<close>

definition includes_str :: "string \<Rightarrow> string \<Rightarrow> bool" where
  "includes_str s p = sublist p s"

text \<open>
  The advisory of the current and the intermediate revision. The early revision (line
  1410) words it differently and is otherwise the same function.
\<close>

definition advisory :: string where
  "advisory = ''Server waking up (~30s). Please retry.''"

definition default_message :: "response \<Rightarrow> string" where
  "default_message res = ''Request failed ('' @ string_of_nat (status_code res) @ '')''"

text \<open>\<^verbatim>\<open>data.error || `Request failed (${res.status})`\<close>: an empty string is falsy.\<close>

definition error_or_default :: "string option \<Rightarrow> response \<Rightarrow> string" where
  "error_or_default e res =
     (case e of None \<Rightarrow> default_message res
      | Some m \<Rightarrow> if m = [] then default_message res else m)"

text \<open>
  \<^verbatim>\<open>api.call\<close>, \<^verbatim>\<open>src/App.jsx\<close> lines 56-69 (the same in \<^verbatim>\<open>unnamed/part_000\<close>,
  lines 69-82). \<open>call_try\<close> is the body of the \<^verbatim>\<open>try\<close> block, \<open>call_catch\<close> the
  handler; the \<^verbatim>\<open>throw\<close> for a response that is not ok sits inside the \<^verbatim>\<open>try\<close>
  and so passes through the handler like any other error.
\<close>

definition call_try :: "fetch_outcome \<Rightarrow> body outcome" where
  "call_try fo =
     (case fo of
        NetworkFailure m \<Rightarrow> Rejected m
      | Responded res \<Rightarrow>
          (case body res of
             NotJson m \<Rightarrow> Rejected m
           | JsonNull m \<Rightarrow> if \<not> ok res then Rejected m else Resolved (JsonNull m)
           | Json e \<Rightarrow>
               if \<not> ok res then Rejected (error_or_default e res) else Resolved (Json e)))"

definition call_catch :: "string \<Rightarrow> string" where
  "call_catch m = (if includes_str m ''Failed to fetch'' then advisory else m)"

definition call :: "fetch_outcome \<Rightarrow> body outcome" where
  "call fo =
     (case call_try fo of Rejected m \<Rightarrow> Rejected (call_catch m) | Resolved data \<Rightarrow> Resolved data)"

subsection \<open>Start of the application\<close>

record user_info =
  name :: string
  email :: string

definition sample_user :: user_info where
  "sample_user = \<lparr> name = ''Asha'', email = ''asha@example.org'' \<rparr>"

text \<open>
  The state of \<^verbatim>\<open>App\<close> with the two places a token lives: \<^verbatim>\<open>api.token\<close> and the
  entry \<^verbatim>\<open>ft_token\<close> of the browser's local storage.
\<close>

record app =
  user :: "user_info option"
  accounts :: "account list"
  api_token :: "string option"
  ft_token :: "string option"
  init :: bool

datatype screen = Spinner | AuthScreen | MainApp

text \<open>Truthiness of a string that may be \<^verbatim>\<open>null\<close>: the empty string is falsy.\<close>

definition truthy_str :: "string option \<Rightarrow> bool" where
  "truthy_str s = (case s of None \<Rightarrow> False | Some t \<Rightarrow> t \<noteq> [])"

definition initial_app :: "string option \<Rightarrow> app" where
  "initial_app stored =
     \<lparr> user = None, accounts = [], api_token = None, ft_token = stored, init = True \<rparr>"

text \<open>
  The effect run once on mount, \<^verbatim>\<open>src/App.jsx\<close> lines 1259-1263 (the same at lines
  2619-2636 and in \<^verbatim>\<open>unnamed/part_000\<close>, lines 1036-1045). The two arguments are the
  outcomes of \<^verbatim>\<open>api.me()\<close> and \<^verbatim>\<open>api.getAccounts()\<close>; both calls are inside one
  \<^verbatim>\<open>try\<close>.
\<close>

definition startup :: "user_info outcome \<Rightarrow> account list outcome \<Rightarrow> app \<Rightarrow> app" where
  "startup me getAccounts st =
     (let token = ft_token st;
          st1 =
            (if truthy_str token then
               (let st2 = st\<lparr> api_token := token \<rparr>
                in case me of
                     Rejected e \<Rightarrow> st2\<lparr> ft_token := None, api_token := None \<rparr>
                   | Resolved u \<Rightarrow>
                       (let st3 = st2\<lparr> user := Some u \<rparr>
                        in case getAccounts of
                             Rejected e \<Rightarrow> st3\<lparr> ft_token := None, api_token := None \<rparr>
                           | Resolved a \<Rightarrow> st3\<lparr> accounts := a \<rparr>))
             else st)
      in st1\<lparr> init := False \<rparr>)"

text \<open>
  What \<^verbatim>\<open>App\<close> returns: the spinner while \<^verbatim>\<open>init\<close>, the login screen while there is
  no user, the tabs otherwise.
\<close>

definition render :: "app \<Rightarrow> screen" where
  "render st = (if init st then Spinner else if user st = None then AuthScreen else MainApp)"

subsection \<open>Statement import: the staged rows\<close>

text \<open>
  A staged row as \<^verbatim>\<open>ImportModal\<close> reads it (\<^verbatim>\<open>src/App.jsx\<close>, from line 725). The
  field \<^verbatim>\<open>id\<close> is \<open>id'\<close> here. A suggested account is an account id or \<^verbatim>\<open>null\<close>.
\<close>

record staged_row =
  id' :: int
  status :: string
  suggested_category :: "string option"
  suggested_debit_account_id :: "int option"
  suggested_credit_account_id :: "int option"

text \<open>The objects passed as \<^verbatim>\<open>updates\<close>: each call site sets one field.\<close>

datatype updates =
    Status string
  | Suggested_category string
  | Suggested_debit_account_id "int option"
  | Suggested_credit_account_id "int option"

text \<open>\<^verbatim>\<open>{...r, ...updates}\<close>.\<close>

fun merge_updates :: "staged_row \<Rightarrow> updates \<Rightarrow> staged_row" where
  "merge_updates r (Status s) = r\<lparr> status := s \<rparr>"
| "merge_updates r (Suggested_category c) = r\<lparr> suggested_category := Some c \<rparr>"
| "merge_updates r (Suggested_debit_account_id a) = r\<lparr> suggested_debit_account_id := a \<rparr>"
| "merge_updates r (Suggested_credit_account_id a) = r\<lparr> suggested_credit_account_id := a \<rparr>"

text \<open>
  Truthiness of an account reference: \<^verbatim>\<open>null\<close> and the number zero are falsy. The
  edit controls of a row store \<^verbatim>\<open>parseInt(value) || null\<close>, so they never store zero.
\<close>

definition truthy_id :: "int option \<Rightarrow> bool" where
  "truthy_id a = (case a of None \<Rightarrow> False | Some n \<Rightarrow> n \<noteq> 0)"


definition withAccounts :: "staged_row list \<Rightarrow> nat" where
  "withAccounts staged =
     length (filter (\<lambda>r. status r \<noteq> ''rejected'' \<and> truthy_id (suggested_debit_account_id r)
                          \<and> truthy_id (suggested_credit_account_id r)) staged)"

text \<open>
  One row of the list, \<^verbatim>\<open>src/App.jsx\<close> lines 877-940. Of what is drawn, the view
  keeps the React key, whether the row is dimmed, whether it has a checkbox, whether the
  marker \<^verbatim>\<open>needs accounts\<close> is shown, and whether the edit and reject buttons are there.
\<close>

definition isRejected :: "staged_row \<Rightarrow> bool" where
  "isRejected tx = (status tx = ''rejected'')"





text \<open>
  The two updates of the local list: \<^verbatim>\<open>updateRow\<close> (line 778) after the server has
  accepted the change of one row, and \<^verbatim>\<open>rejectSelected\<close> (line 784) after it has
  accepted the rejection of the selected rows.
\<close>

definition update_rows :: "int \<Rightarrow> updates \<Rightarrow> staged_row list \<Rightarrow> staged_row list" where
  "update_rows i u prev = map (\<lambda>r. if id' r = i then merge_updates r u else r) prev"


subsection \<open>Statement import: the workflow\<close>

record import_result =
  imported :: nat
  skipped :: nat
  errors :: "string list"

record upload_result =
  batch_id :: "string option"
  total_parsed :: nat

text \<open>The requests the modal sends, and the two refetches of the transactions tab.\<close>

datatype request =
    ImportUpload
  | GetStaged "string option"
  | UpdateStaged int updates
  | UpdateStagedBulk "int list" updates
  | ConfirmImport "string option"
  | ClearStaged "string option"

datatype refresh = FetchTxns | FetchSummary

text \<open>
  The state of the modal together with what it acts on: \<^verbatim>\<open>showImport\<close> of
  \<^verbatim>\<open>TransactionsTab\<close> (the modal's \<^verbatim>\<open>open\<close>), the toasts raised, the requests sent
  and the refetches started, each in order. The file, the password, the source account
  and the editing controls are left out.
\<close>

record import_ui =
  showImport :: bool
  step :: nat
  loading :: bool
  batchId :: "string option"
  staged :: "staged_row list"
  result :: "import_result option"
  selected :: "int list"
  toasts :: "(string \<times> string) list"
  requests :: "request list"
  refreshes :: "refresh list"

definition toast :: "string \<Rightarrow> string \<Rightarrow> import_ui \<Rightarrow> import_ui" where
  "toast msg type st = st\<lparr> toasts := toasts st @ [(msg, type)] \<rparr>"

definition request :: "request \<Rightarrow> import_ui \<Rightarrow> import_ui" where
  "request r st = st\<lparr> requests := requests st @ [r] \<rparr>"

text \<open>
  The two callbacks \<^verbatim>\<open>TransactionsTab\<close> passes, \<^verbatim>\<open>src/App.jsx\<close> line 669:
  \<^verbatim>\<open>onClose={()=>setShowImport(false)}\<close> and
  \<^verbatim>\<open>onSuccess={()=>{setShowImport(false);fetchTxns();fetchSummary()}}\<close>.
\<close>

definition onClose :: "import_ui \<Rightarrow> import_ui" where
  "onClose st = st\<lparr> showImport := False \<rparr>"

definition onSuccess :: "import_ui \<Rightarrow> import_ui" where
  "onSuccess st =
     st\<lparr> showImport := False, refreshes := refreshes st @ [FetchTxns, FetchSummary] \<rparr>"

text \<open>Opening the modal runs the reset effect of line 742.\<close>

definition open_import :: "import_ui \<Rightarrow> import_ui" where
  "open_import st =
     st\<lparr> showImport := True, step := 1, batchId := None, staged := [], result := None,
         selected := [] \<rparr>"

text \<open>
  \<^verbatim>\<open>handleUpload\<close>, lines 753-770, in two halves: up to the first \<^verbatim>\<open>await\<close>, and
  from there on, given the outcomes of the upload and of the fetch of the staged rows.
\<close>

definition handleUpload :: "import_ui \<Rightarrow> import_ui" where
  "handleUpload st = request ImportUpload (st\<lparr> loading := True \<rparr>)"

definition handleUpload_settled ::
  "upload_result outcome \<Rightarrow> staged_row list outcome \<Rightarrow> import_ui \<Rightarrow> import_ui" where
  "handleUpload_settled up rows st =
     (let st1 =
        (case up of
           Rejected e \<Rightarrow> toast e ''error'' st
         | Resolved data \<Rightarrow>
             (let st2 = request (GetStaged (batch_id data)) (st\<lparr> batchId := batch_id data \<rparr>)
              in case rows of
                   Rejected e \<Rightarrow> toast e ''error'' st2
                 | Resolved rs \<Rightarrow>
                     toast (''Parsed '' @ string_of_nat (total_parsed data) @ '' transactions!'')
                       ''success'' (st2\<lparr> staged := rs, step := 2 \<rparr>)))
      in st1\<lparr> loading := False \<rparr>)"

text \<open>\<^verbatim>\<open>updateRow\<close> and \<^verbatim>\<open>rejectRow\<close>, lines 775-781.\<close>

definition updateRow :: "int \<Rightarrow> updates \<Rightarrow> import_ui \<Rightarrow> import_ui" where
  "updateRow i u st = request (UpdateStaged i u) st"

definition updateRow_settled :: "body outcome \<Rightarrow> int \<Rightarrow> updates \<Rightarrow> import_ui \<Rightarrow> import_ui" where
  "updateRow_settled p i u st =
     (case p of
        Resolved d \<Rightarrow> st\<lparr> staged := update_rows i u (staged st) \<rparr>
      | Rejected e \<Rightarrow> toast e ''error'' st)"

definition rejectRow :: "int \<Rightarrow> import_ui \<Rightarrow> import_ui" where
  "rejectRow i st = updateRow i (Status ''rejected'') st"

text \<open>\<^verbatim>\<open>handleConfirm\<close>, lines 794-803, in two halves.\<close>

definition handleConfirm :: "import_ui \<Rightarrow> import_ui" where
  "handleConfirm st = request (ConfirmImport (batchId st)) (st\<lparr> loading := True \<rparr>)"

definition handleConfirm_settled :: "import_result outcome \<Rightarrow> import_ui \<Rightarrow> import_ui" where
  "handleConfirm_settled p st =
     (let st1 =
        (case p of
           Resolved data \<Rightarrow>
             toast (''Imported '' @ string_of_nat (imported data) @ '' transactions!'')
               ''success'' (st\<lparr> result := Some data, step := 3 \<rparr>)
         | Rejected e \<Rightarrow> toast e ''error'' st)
      in st1\<lparr> loading := False \<rparr>)"

text \<open>
  \<^verbatim>\<open>api.clearStaged(batchId).catch(()=>{})\<close>: nothing is chained for fulfilment, and
  the rejection handler is empty.
\<close>

definition clearStaged_settled :: "body outcome \<Rightarrow> import_ui \<Rightarrow> import_ui" where
  "clearStaged_settled p st = (case p of Resolved d \<Rightarrow> st | Rejected e \<Rightarrow> st)"

text \<open>
  The close control of the modal (its X and its backdrop), line 811, and the Cancel
  button of the review step, line 945.
\<close>

definition modal_onClose :: "import_ui \<Rightarrow> import_ui" where
  "modal_onClose st =
     onClose (if truthy_str (batchId st) \<and> step st = 2
              then request (ClearStaged (batchId st)) st else st)"

definition cancel_review :: "import_ui \<Rightarrow> import_ui" where
  "cancel_review st = onClose (request (ClearStaged (batchId st)) st)"

text \<open>
  The Confirm button, line 949, is given \<^verbatim>\<open>disabled={withAccounts===0}\<close> and
  \<^verbatim>\<open>loading={loading}\<close>; \<^verbatim>\<open>Btn\<close>, line 162, renders
  \<^verbatim>\<open>disabled={disabled||loading}\<close>.
\<close>

definition confirm_disabled :: "import_ui \<Rightarrow> bool" where
  "confirm_disabled st = (withAccounts (staged st) = 0 \<or> loading st)"

text \<open>
  What can happen to the modal: the user's actions, and the settling of a request. An
  action has an effect only where its control is drawn: the modal is drawn while
  \<^verbatim>\<open>showImport\<close> holds, each step draws its own buttons, and a disabled button does
  not fire. \<open>ClickUpload\<close> is a press of Upload with a file and a source account chosen;
  \<open>ClickReject\<close> is a press of the reject button of a row.
\<close>

datatype event =
    OpenImport
  | CloseModal
  | ClickCancel
  | ClickUpload
  | UploadSettled "upload_result outcome" "staged_row list outcome"
  | ClickReject int
  | UpdateSettled fetch_outcome int updates
  | ClickConfirm
  | ConfirmSettled "import_result outcome"
  | ClickDone
  | ClearSettled fetch_outcome

fun dispatch :: "event \<Rightarrow> import_ui \<Rightarrow> import_ui" where
  "dispatch OpenImport st = (if showImport st then st else open_import st)"
| "dispatch CloseModal st = (if showImport st then modal_onClose st else st)"
| "dispatch ClickCancel st =
     (if showImport st \<and> step st = 1 then onClose st
      else if showImport st \<and> step st = 2 then cancel_review st
      else st)"
| "dispatch ClickUpload st =
     (if showImport st \<and> step st = 1 \<and> \<not> loading st then handleUpload st else st)"
| "dispatch (UploadSettled up rows) st = handleUpload_settled up rows st"
| "dispatch (ClickReject i) st =
     (if showImport st \<and> step st = 2
         \<and> (\<exists>r \<in> set (staged st). id' r = i \<and> \<not> isRejected r)
      then rejectRow i st else st)"
| "dispatch (UpdateSettled fo i u) st = updateRow_settled (call fo) i u st"
| "dispatch ClickConfirm st =
     (if showImport st \<and> step st = 2 \<and> \<not> confirm_disabled st then handleConfirm st else st)"
| "dispatch (ConfirmSettled p) st = handleConfirm_settled p st"
| "dispatch ClickDone st =
     (if showImport st \<and> step st = 3 \<and> result st \<noteq> None then onSuccess st else st)"
| "dispatch (ClearSettled fo) st = clearStaged_settled (call fo) st"

definition run :: "event list \<Rightarrow> import_ui \<Rightarrow> import_ui" where
  "run evs st = fold dispatch evs st"

text \<open>The transactions tab before the import button is pressed.\<close>

definition closed_ui :: import_ui where
  "closed_ui =
     \<lparr> showImport = False, step = 1, loading = False, batchId = None, staged = [],
       result = None, selected = [], toasts = [], requests = [], refreshes = [] \<rparr>"

text \<open>
  Three sample rows: one ready, one active without a credit account, one rejected. And
  a sample session: a statement with one ready row is uploaded, reviewed and confirmed,
  which leaves the modal open on its last step.
\<close>

definition row1 :: staged_row where
  "row1 = \<lparr> id' = 1, status = ''pending'', suggested_category = Some ''Food'',
            suggested_debit_account_id = Some 7, suggested_credit_account_id = Some 3 \<rparr>"

definition row2 :: staged_row where
  "row2 = \<lparr> id' = 2, status = ''pending'', suggested_category = None,
            suggested_debit_account_id = Some 7, suggested_credit_account_id = None \<rparr>"


definition review_ui :: import_ui where
  "review_ui =
     closed_ui\<lparr> showImport := True, step := 2, batchId := Some ''b1'', staged := [row1, row2] \<rparr>"

definition unready_ui :: import_ui where
  "unready_ui = closed_ui\<lparr> showImport := True, step := 2, batchId := Some ''b1'', staged := [row2] \<rparr>"

definition server_error :: fetch_outcome where
  "server_error =
     Responded \<lparr> status_code = 500, body = Json (Some ''Internal server error'') \<rparr>"

definition import_done :: "event list" where
  "import_done =
     [OpenImport, ClickUpload,
      UploadSettled (Resolved \<lparr> batch_id = Some ''b1'', total_parsed = 1 \<rparr>) (Resolved [row1]),
      ClickConfirm,
      ConfirmSettled (Resolved \<lparr> imported = 1, skipped = 0, errors = [] \<rparr>)]"


section \<open>Theorems\<close>

subsection \<open>Double precision\<close>

text \<open>
  The exponent is the one that brackets the number, and rounding moves a number by half a
  unit in the last place at most.
\<close>

lemma ilog2_bounds:
  assumes "0 < a"
  shows "power_int 2 (ilog2 a) \<le> a \<and> a < power_int 2 (ilog2 a + 1)"
proof (cases "1 \<le> a")
  case True
  define n where "n = \<lfloor>a\<rfloor>"
  have n: "0 < n" using True by (simp add: n_def)
  have bl: "1 \<le> bitlen n" using n by (simp add: bitlen_alt_def)
  have b: "2 ^ nat (bitlen n - 1) \<le> n" "n < 2 ^ nat (bitlen n)"
    using bitlen_bounds [OF n] by simp_all
  have e: "ilog2 a = bitlen n - 1" using True by (simp add: ilog2_def n_def)
  have p1: "power_int (2::rat) (bitlen n - 1) = 2 ^ nat (bitlen n - 1)"
    using bl by (simp add: power_int_def)
  have p2: "power_int (2::rat) (bitlen n - 1 + 1) = 2 ^ nat (bitlen n)"
    using bl by (simp add: power_int_def)
  have "rat_of_int (2 ^ nat (bitlen n - 1)) \<le> a"
    using b(1) unfolding n_def by (simp only: le_floor_iff)
  then have l: "(2::rat) ^ nat (bitlen n - 1) \<le> a" by simp
  have "a < rat_of_int (2 ^ nat (bitlen n))"
    using b(2) unfolding n_def by (simp only: floor_less_iff)
  then have u: "a < (2::rat) ^ nat (bitlen n)" by simp
  show ?thesis unfolding e p1 p2 using l u by simp
next
  case False
  define b where "b = 1 / a"
  have b1: "1 < b" using False assms by (simp add: b_def)
  define c where "c = \<lceil>b\<rceil> - 1"
  have c: "0 < c" using b1 by (simp add: c_def)
  define k where "k = bitlen c"
  have k1: "1 \<le> k" using c by (simp add: k_def bitlen_alt_def)
  have bb: "2 ^ nat (k - 1) \<le> c" "c < 2 ^ nat k"
    using bitlen_bounds [OF c] by (simp_all add: k_def)
  have e: "ilog2 a = - k" using False by (simp add: ilog2_def b_def c_def k_def)
  have "2 ^ nat (k - 1) < \<lceil>b\<rceil>" using bb(1) by (simp add: c_def)
  then have "rat_of_int (2 ^ nat (k - 1)) < b" by (simp only: less_ceiling_iff)
  then have lo: "(2::rat) ^ nat (k - 1) < b" by simp
  have "\<lceil>b\<rceil> \<le> 2 ^ nat k" using bb(2) by (simp add: c_def)
  then have "b \<le> rat_of_int (2 ^ nat k)" by (simp only: ceiling_le_iff)
  then have hi: "b \<le> (2::rat) ^ nat k" by simp
  have a: "a = 1 / b" using assms by (simp add: b_def)
  have bpos: "0 < b" using b1 by simp
  have p1: "power_int (2::rat) (- k) = 1 / 2 ^ nat k"
    using k1 by (simp add: power_int_def field_simps)
  have p2: "power_int (2::rat) (- k + 1) = 1 / 2 ^ nat (k - 1)"
    using k1 by (simp add: power_int_def field_simps nat_diff_distrib)
  have l: "1 / 2 ^ nat k \<le> a" unfolding a using hi bpos by (simp add: frac_le)
  have u: "a < 1 / 2 ^ nat (k - 1)" unfolding a using lo bpos
    by (simp add: frac_less2)
  show ?thesis unfolding e p1 p2 using l u by simp
qed

lemma round_even_near: "\<bar>rat_of_int (round_even q) - q\<bar> \<le> 1 / 2"
proof -
  have "of_int \<lfloor>q\<rfloor> \<le> q" "q < of_int \<lfloor>q\<rfloor> + 1" by linarith+
  then show ?thesis
    by (auto simp: round_even_def Let_def)
qed

lemma round_double_near:
  assumes "round_double x = Fin y"
  shows "\<bar>y - x\<bar> \<le> power_int 2 (max (ilog2 \<bar>x\<bar>) (- 1022) - 53)"
proof (cases "x = 0")
  case True
  then show ?thesis using assms by (simp add: round_double_def)
next
  case False
  define e where "e = max (ilog2 \<bar>x\<bar>) (- 1022)"
  define m where "m = round_even (\<bar>x\<bar> * power_int 2 (52 - e))"
  define u :: rat where "u = power_int 2 (e - 52)"
  have u: "0 < u" by (simp add: u_def)
  have iu: "power_int 2 (52 - e) = 1 / u"
    unfolding u_def using power_int_minus [of "2::rat" "e - 52"] by (simp add: field_simps)
  have y: "y = (if x < 0 then - 1 else 1) * of_int m * u"
    using assms False
    by (simp add: round_double_def Let_def e_def [symmetric] m_def [symmetric] u_def
        split: if_splits)
  have "\<bar>rat_of_int m - \<bar>x\<bar> / u\<bar> \<le> 1 / 2"
    using round_even_near [of "\<bar>x\<bar> * power_int 2 (52 - e)"] by (simp add: m_def iu)
  then have "\<bar>rat_of_int m - \<bar>x\<bar> / u\<bar> * u \<le> 1 / 2 * u"
    using u by (simp only: mult_le_cancel_right_pos)
  moreover have "\<bar>rat_of_int m - \<bar>x\<bar> / u\<bar> * u = \<bar>rat_of_int m * u - \<bar>x\<bar>\<bar>"
  proof -
    have "\<bar>rat_of_int m - \<bar>x\<bar> / u\<bar> * u = \<bar>(rat_of_int m - \<bar>x\<bar> / u) * u\<bar>"
      using u by (simp add: abs_mult)
    also have "(rat_of_int m - \<bar>x\<bar> / u) * u = rat_of_int m * u - \<bar>x\<bar>"
      using u by (simp add: field_simps)
    finally show ?thesis .
  qed
  ultimately have d: "\<bar>rat_of_int m * u - \<bar>x\<bar>\<bar> \<le> u / 2" by simp
  have "\<bar>y - x\<bar> = \<bar>rat_of_int m * u - \<bar>x\<bar>\<bar>"
    unfolding y by (cases "x < 0") (simp_all add: abs_minus_commute)
  moreover have "u / 2 = power_int 2 (e - 53)"
  proof -
    have "power_int (2::rat) (e - 52) = power_int 2 (e - 53 + 1)" by simp
    also have "\<dots> = power_int 2 (e - 53) * 2"
      by (subst power_int_add) simp_all
    finally show ?thesis by (simp add: u_def)
  qed
  ultimately show ?thesis using d by (simp add: e_def)
qed

text \<open>
  The decimal fractions 0.01, 2.48 and 0.1 as doubles: \<^verbatim>\<open>0x1.47ae147ae147bp-7\<close>,
  \<^verbatim>\<open>0x1.3d70a3d70a3d7p+1\<close> and \<^verbatim>\<open>0x1.999999999999ap-4\<close>.
\<close>

lemma round_double_examples:
  "round_double (1 / 100) = Fin (5764607523034235 / 576460752303423488)
   \<and> round_double (248 / 100) = Fin (5584463537939415 / 2251799813685248)
   \<and> round_double (1 / 10) = Fin (3602879701896397 / 36028797018963968)"
  by code_simp






subsection \<open>Net worth\<close>






















subsection \<open>The shared API client\<close>

lemma digit_char_in: "digit_char n \<in> set ''0123456789''"
  unfolding digit_char_def by (rule nth_mem) simp

lemma string_of_nat_digits: "set (string_of_nat n) \<subseteq> set ''0123456789''"
proof (induction n rule: string_of_nat.induct)
  case (1 n)
  show ?case
  proof (cases "n < 10")
    case True
    then show ?thesis
      using digit_char_in [of n] by (subst string_of_nat.simps) simp
  next
    case False
    then show ?thesis
      using 1 digit_char_in [of "n mod 10"] by (subst string_of_nat.simps) simp
  qed
qed

text \<open>The default message has no capital F, so the handler never rewrites it.\<close>

lemma default_message_not_rewritten:
  "\<not> includes_str (default_message res) ''Failed to fetch''"
proof
  assume "includes_str (default_message res) ''Failed to fetch''"
  then have "set ''Failed to fetch'' \<subseteq> set (default_message res)"
    unfolding includes_str_def by (rule set_mono_sublist)
  then have "CHR ''F'' \<in> set (default_message res)" by simp
  then have "CHR ''F'' \<in> set (string_of_nat (status_code res))"
    by (simp add: default_message_def)
  then show False using string_of_nat_digits [of "status_code res"] by auto
qed

text \<open>
  C6, as the specification states it, fails both ways. A response with status 500 whose
  \<^verbatim>\<open>error\<close> field is "Failed to fetch transactions" is surfaced as the advisory, although a
  response was received and its \<^verbatim>\<open>error\<close> field is present; and a network failure whose
  message is not Chromium's ("Load failed") is surfaced unchanged.
\<close>

theorem C6_counterexample:
  "\<not> ok \<lparr> status_code = 500, body = Json (Some ''Failed to fetch transactions'') \<rparr>
   \<and> call (Responded \<lparr> status_code = 500, body = Json (Some ''Failed to fetch transactions'') \<rparr>)
       = Rejected ''Server waking up (~30s). Please retry.''
   \<and> call (NetworkFailure ''Load failed'') = Rejected ''Load failed''"
  by code_simp

text \<open>
  C6 (amended): for every call through the shared client, if the response has a non-2xx
  status and a JSON body whose \<^verbatim>\<open>error\<close> field is a non-empty string that does not
  contain "Failed to fetch", the error surfaced carries that field; if the field is absent
  or empty, it carries "Request failed (status)"; and when no response is received, the
  message is rewritten to the fixed advisory exactly when the browser's message contains
  "Failed to fetch", and is surfaced unchanged otherwise.
\<close>

theorem C6_error_surfaced:
  "(\<not> ok res \<and> body res = Json (Some m) \<and> m \<noteq> [] \<and> \<not> includes_str m ''Failed to fetch''
      \<longrightarrow> call (Responded res) = Rejected m)
   \<and> (\<not> ok res \<and> (body res = Json None \<or> body res = Json (Some []))
      \<longrightarrow> call (Responded res) = Rejected (''Request failed ('' @ string_of_nat (status_code res) @ '')''))
   \<and> call (NetworkFailure m') = Rejected (if includes_str m' ''Failed to fetch'' then advisory else m')"
  using default_message_not_rewritten [of res]
  by (auto simp: call_def call_try_def call_catch_def error_or_default_def default_message_def)

text \<open>A refused deletion, a missing route, and a network failure in Chromium.\<close>

theorem C6_error_surfaced_witness:
  "\<not> ok \<lparr> status_code = 409, body = Json (Some ''Account has linked transactions'') \<rparr>
   \<and> \<not> includes_str ''Account has linked transactions'' ''Failed to fetch''
   \<and> call (Responded \<lparr> status_code = 409, body = Json (Some ''Account has linked transactions'') \<rparr>)
       = Rejected ''Account has linked transactions''
   \<and> \<not> ok \<lparr> status_code = 404, body = Json None \<rparr>
   \<and> call (Responded \<lparr> status_code = 404, body = Json None \<rparr>) = Rejected ''Request failed (404)''
   \<and> call (NetworkFailure ''Failed to fetch'') = Rejected advisory"
proof -
  have a: "\<not> ok \<lparr> status_code = 409, body = Json (Some ''Account has linked transactions'') \<rparr>"
    by (simp add: ok_def)
  have b: "\<not> includes_str ''Account has linked transactions'' ''Failed to fetch''"
    by code_simp
  have c: "\<not> ok \<lparr> status_code = 404, body = Json None \<rparr>"
    by (simp add: ok_def)
  have d: "string_of_nat 404 = ''404''" by code_simp
  have e: "includes_str ''Failed to fetch'' ''Failed to fetch''" by code_simp
  show ?thesis
    using a b c d e
      C6_error_surfaced [of "\<lparr> status_code = 409, body = Json (Some ''Account has linked transactions'') \<rparr>"
        "''Account has linked transactions''" "''Failed to fetch''"]
      C6_error_surfaced [of "\<lparr> status_code = 404, body = Json None \<rparr>" "''x''" "''Failed to fetch''"]
    by simp
qed


subsection \<open>Financial year and month ranges\<close>

text \<open>
  C3, as the specification states it, fails: month index 10 is February in \<open>MONTHS\<close>,
  and \<open>getMonthRange\<close> maps it to February 2025, not to January.
\<close>

theorem C3_month_index_10_counterexample:
  "getMonthRange 2024 10 \<noteq> \<lparr> start = ''2025-01-01'', end' = ''2025-02-01'' \<rparr>"
  by code_simp

text \<open>
  C3 (amended): the financial-year range of FY 2024 is the closed interval from
  2024-04-01 to 2025-03-31; month index 10 is February and maps to the half-open range
  from 2025-02-01 to 2025-03-01; January is month index 9 and maps to the half-open range
  from 2025-01-01 to 2025-02-01.
\<close>

theorem C3_ranges_FY2024:
  "getFYRange 2024 = \<lparr> start = ''2024-04-01'', end' = ''2025-03-31'' \<rparr>
   \<and> MONTHS ! 10 = ''Feb''
   \<and> getMonthRange 2024 10 = \<lparr> start = ''2025-02-01'', end' = ''2025-03-01'' \<rparr>
   \<and> MONTHS ! 9 = ''Jan''
   \<and> getMonthRange 2024 9 = \<lparr> start = ''2025-01-01'', end' = ''2025-02-01'' \<rparr>"
  by code_simp

subsection \<open>Currency abbreviation\<close>

text \<open>
  The quotient is rounded to a double before \<^verbatim>\<open>toFixed\<close> reads it: 1150 / 1000 is the
  double just below 1.15, so 1150 is written "1.1K". From \<open>10^21\<close> on \<^verbatim>\<open>toFixed\<close>
  answers in exponent notation, which \<open>fmt\<close> passes on.
\<close>

lemma fmt_rounds_double_quotient:
  "ddiv (Fin 1150) 1000 = Fin (2589569785738035 / 2251799813685248)
   \<and> fmt (Fin 1150) = ''1.1K''"
  by code_simp

lemma toFixed_exponent_notation:
  "toFixed 2 (Fin (10 ^ 21)) = ''1e+21''
   \<and> toFixed 2 (Fin (- (25 * 10 ^ 20))) = ''-2.5e+21''
   \<and> toFixed 2 (Fin 999999999999999868928) = ''999999999999999868928.00''"
  by code_simp

text \<open>
  C5, as the specification states it, fails for \<open>fmt\<close> of \<^verbatim>\<open>src/App.jsx\<close>: it writes
  the unit directly after the digits.
\<close>

theorem C5_fmt_space_counterexample:
  "fmt (Fin 12345678) \<noteq> ''1.23 Cr''"
  by code_simp

text \<open>
  C5 (amended): \<open>fmt\<close> of \<^verbatim>\<open>src/App.jsx\<close> maps 12,345,678 to "1.23Cr", 234,567 to
  "2.35L", 4,500 to "4.5K" and 900 to "900"; \<open>fmt\<close> of \<^verbatim>\<open>unnamed/part_000\<close> maps
  them to "1.23 Cr", "2.35 L", "4.5 K" and "900".
\<close>

theorem C5_fmt_examples:
  "fmt (Fin 12345678) = ''1.23Cr''
   \<and> fmt (Fin 234567) = ''2.35L''
   \<and> fmt (Fin 4500) = ''4.5K''
   \<and> fmt (Fin 900) = ''900''
   \<and> fmt_part_000 (Fin 12345678) = ''1.23 Cr''
   \<and> fmt_part_000 (Fin 234567) = ''2.35 L''
   \<and> fmt_part_000 (Fin 4500) = ''4.5 K''
   \<and> fmt_part_000 (Fin 900) = ''900''"
  by code_simp

subsection \<open>Transaction classification\<close>

text \<open>
  C2, as the specification states it, fails for a transaction whose debit account is an
  Expense account and whose credit account is an Income account: both flags hold, and the
  row is drawn as an expense, so a credit account of type Income does not make it income.
\<close>

theorem C2_expense_from_income_counterexample:
  "credit_account_type \<lparr> debit_account_type = ''Expense'', credit_account_type = ''Income'' \<rparr>
     = ''Income''
   \<and> classify \<lparr> debit_account_type = ''Expense'', credit_account_type = ''Income'' \<rparr>
       \<noteq> Income_label
   \<and> isExp \<lparr> debit_account_type = ''Expense'', credit_account_type = ''Income'' \<rparr>
   \<and> isInc \<lparr> debit_account_type = ''Expense'', credit_account_type = ''Income'' \<rparr>"
  by (simp add: classify_def sign_def isExp_def isInc_def)

text \<open>
  C2 (amended): for every transaction, the classification computed from its two account
  types labels it expense if and only if the debit account's type is Expense, income if
  and only if the credit account's type is Income and the debit account's type is not
  Expense, and transfer if and only if neither holds; every transaction receives exactly
  one of the three labels, and the colour of the amount, the Transfer pill and the sign in
  the dashboard's recent list follow the same label.
\<close>

theorem C2_classification:
  "(classify tx = Expense_label \<longleftrightarrow> debit_account_type tx = ''Expense'')
   \<and> (classify tx = Income_label \<longleftrightarrow>
        credit_account_type tx = ''Income'' \<and> debit_account_type tx \<noteq> ''Expense'')
   \<and> (classify tx = Transfer_label \<longleftrightarrow>
        debit_account_type tx \<noteq> ''Expense'' \<and> credit_account_type tx \<noteq> ''Income'')
   \<and> (isTransfer tx \<longleftrightarrow> classify tx = Transfer_label)
   \<and> (amtColor tx = Danger \<longleftrightarrow> classify tx = Expense_label)
   \<and> (amtColor tx = Success \<longleftrightarrow> classify tx = Income_label)
   \<and> (amtColor tx = Info \<longleftrightarrow> classify tx = Transfer_label)
   \<and> (recent_sign tx = Some Minus \<longleftrightarrow> classify tx = Expense_label)
   \<and> (recent_sign tx = Some Plus \<longleftrightarrow> classify tx = Income_label)
   \<and> (recent_sign tx = None \<longleftrightarrow> classify tx = Transfer_label)"
  by (simp add: classify_def sign_def amtColor_def recent_sign_def isTransfer_def isExp_def
      isInc_def)

subsection \<open>Start of the application\<close>

text \<open>
  C9: on startup with a stored session token, if the token-validation call succeeds the
  user is set and the tabs are shown, not the login screen, with no credentials asked for
  (and if the accounts are fetched as well, the token stays both in the client and in
  local storage); if the token-validation call fails, the token is removed from local
  storage, the client's token is cleared, and the login screen is shown.
\<close>

theorem C9_startup_with_stored_token:
  assumes "truthy_str stored"
  shows "(me = Resolved u \<longrightarrow>
            user (startup me getAccounts (initial_app stored)) = Some u
            \<and> render (startup me getAccounts (initial_app stored)) = MainApp)
         \<and> (me = Resolved u \<and> getAccounts = Resolved a \<longrightarrow>
            api_token (startup me getAccounts (initial_app stored)) = stored
            \<and> ft_token (startup me getAccounts (initial_app stored)) = stored)
         \<and> (me = Rejected e \<longrightarrow>
            ft_token (startup me getAccounts (initial_app stored)) = None
            \<and> api_token (startup me getAccounts (initial_app stored)) = None
            \<and> user (startup me getAccounts (initial_app stored)) = None
            \<and> render (startup me getAccounts (initial_app stored)) = AuthScreen)"
  using assms
  by (auto simp: startup_def initial_app_def render_def Let_def split: outcome.splits)

text \<open>A stored token that the server accepts, and one that it answers with 401.\<close>

theorem C9_startup_with_stored_token_witness:
  "truthy_str (Some ''tok'')
   \<and> user (startup (Resolved sample_user) (Resolved [acc_bank]) (initial_app (Some ''tok'')))
       = Some sample_user
   \<and> render (startup (Resolved sample_user) (Resolved [acc_bank]) (initial_app (Some ''tok'')))
       = MainApp
   \<and> api_token (startup (Resolved sample_user) (Resolved [acc_bank]) (initial_app (Some ''tok'')))
       = Some ''tok''
   \<and> ft_token (startup (Rejected ''Request failed (401)'') (Resolved [acc_bank])
        (initial_app (Some ''tok''))) = None
   \<and> api_token (startup (Rejected ''Request failed (401)'') (Resolved [acc_bank])
        (initial_app (Some ''tok''))) = None
   \<and> render (startup (Rejected ''Request failed (401)'') (Resolved [acc_bank])
        (initial_app (Some ''tok''))) = AuthScreen"
proof -
  have h: "truthy_str (Some ''tok'')" by (simp add: truthy_str_def)
  show ?thesis
    using h
      C9_startup_with_stored_token [OF h, of "Resolved sample_user" sample_user
        "Resolved [acc_bank]" "[acc_bank]" "''Request failed (401)''"]
      C9_startup_with_stored_token [OF h, of "Rejected ''Request failed (401)''" sample_user
        "Resolved [acc_bank]" "[acc_bank]" "''Request failed (401)''"]
    by simp
qed

text \<open>
  When the token is accepted but the fetch of the accounts fails, the same handler runs:
  the user stays set and the tabs are shown, with the token gone from both places.
\<close>

lemma startup_accounts_fail:
  assumes "truthy_str stored"
  shows "user (startup (Resolved u) (Rejected e) (initial_app stored)) = Some u
         \<and> render (startup (Resolved u) (Rejected e) (initial_app stored)) = MainApp
         \<and> api_token (startup (Resolved u) (Rejected e) (initial_app stored)) = None
         \<and> ft_token (startup (Resolved u) (Rejected e) (initial_app stored)) = None"
  using assms by (simp add: startup_def initial_app_def render_def Let_def)

subsection \<open>Statement import: counters\<close>













subsection \<open>Statement import: the Confirm button\<close>

text \<open>
  C7, as the specification states it, fails while a confirmation is in flight: the
  review step then has a ready row and a disabled Confirm button.
\<close>

theorem C7_loading_counterexample:
  "withAccounts (staged (handleConfirm
review_ui)) = 1
   \<and> step (handleConfirm
review_ui) = 2
   \<and> confirm_disabled (handleConfirm
review_ui)"
  by code_simp

text \<open>A confirmation request is only ever sent by a press of an enabled Confirm button.\<close>

lemma confirm_request_only_by_button:
  assumes "requests (dispatch ev st) = requests st @ [ConfirmImport b]"
  shows "ev = ClickConfirm \<and> 1 \<le> withAccounts (staged st) \<and> \<not> loading st
         \<and> showImport st \<and> step st = 2"
  using assms
  by (cases ev)
     (auto simp: open_import_def modal_onClose_def cancel_review_def onClose_def onSuccess_def
        request_def handleUpload_def handleUpload_settled_def rejectRow_def updateRow_def
        updateRow_settled_def handleConfirm_def handleConfirm_settled_def clearStaged_settled_def
        confirm_disabled_def toast_def Let_def
        split: if_splits outcome.splits)

text \<open>
  C7 (amended): in the review step, the Confirm Import action is enabled if and only if
  the ready count is at least one and the modal's \<^verbatim>\<open>loading\<close> flag is off (it is
  on while an upload or a confirmation is awaited); with zero ready rows pressing it
  changes nothing, and whenever an action on the modal sends a confirmation request, that
  action is a press of Confirm and the ready count is at least one.
\<close>

theorem C7_confirm_enabled:
  "(\<not> confirm_disabled st \<longleftrightarrow> 1 \<le> withAccounts (staged st) \<and> \<not> loading st)
   \<and> (withAccounts (staged st) = 0 \<longrightarrow> dispatch ClickConfirm st = st)
   \<and> (requests (dispatch ev st) = requests st @ [ConfirmImport b] \<longrightarrow>
        ev = ClickConfirm \<and> 1 \<le> withAccounts (staged st))"
proof -
  have a: "\<not> confirm_disabled st \<longleftrightarrow> 1 \<le> withAccounts (staged st) \<and> \<not> loading st"
    by (auto simp: confirm_disabled_def)
  have b: "dispatch ClickConfirm st = st" if "withAccounts (staged st) = 0"
    using that by (simp add: confirm_disabled_def)
  show ?thesis
    using a b confirm_request_only_by_button [of ev st b] by blast
qed

text \<open>
  A review step whose only row lacks an account: Confirm does nothing. With a ready row
  it sends the confirmation.
\<close>

theorem C7_confirm_enabled_witness:
  "withAccounts (staged unready_ui) = 0
   \<and> dispatch ClickConfirm unready_ui = unready_ui
   \<and> requests (dispatch ClickConfirm review_ui)
       = requests review_ui @ [ConfirmImport (Some ''b1'')]
   \<and> 1 \<le> withAccounts (staged review_ui)"
proof -
  have z: "withAccounts (staged unready_ui) = 0"
    by (simp add: unready_ui_def withAccounts_def row2_def truthy_id_def)
  have r: "requests (dispatch ClickConfirm review_ui)
             = requests review_ui @ [ConfirmImport (Some ''b1'')]"
    by (simp add: review_ui_def confirm_disabled_def withAccounts_def row1_def row2_def
        truthy_id_def closed_ui_def handleConfirm_def request_def)
  show ?thesis
    using z r C7_confirm_enabled [of unready_ui]
      C7_confirm_enabled [of review_ui ClickConfirm "Some ''b1''"]
    by blast
qed

subsection \<open>Statement import: leaving the modal\<close>

text \<open>Leaving the review step by the close control or by Cancel sends the clear request.\<close>

lemma review_exit_clears:
  assumes "showImport st" "step st = 2" "truthy_str (batchId st)"
    and "ev = CloseModal \<or> ev = ClickCancel"
  shows "requests (dispatch ev st) = requests st @ [ClearStaged (batchId st)]
         \<and> \<not> showImport (dispatch ev st) \<and> refreshes (dispatch ev st) = refreshes st"
  using assms by (auto simp: modal_onClose_def cancel_review_def onClose_def request_def)

text \<open>On the last step no action sends a clear request, and the Done button refetches.\<close>

lemma done_exit_never_clears:
  assumes "step st = 3"
  shows "dispatch CloseModal st = (if showImport st then onClose st else st)"
    and "dispatch ClickCancel st = st"
    and "dispatch ClickDone st = (if showImport st \<and> result st \<noteq> None then onSuccess st else st)"
  using assms by (auto simp: modal_onClose_def)

text \<open>
  C8: a clear-staged request is sent on every exit from the review step without
  confirming, and never on exit from the last step, whose close is to refetch the
  transactions and the period summary. The code does not do the last part when the last
  step is left by the close control of the modal: after the sample session, closing sends
  no clear request and starts no refetch, while the Done button starts both.
\<close>

theorem C8_close_on_done_no_refresh:
  "step (run import_done closed_ui) = 3
   \<and> showImport (run import_done closed_ui)
   \<and> \<not> showImport (run (import_done @ [CloseModal]) closed_ui)
   \<and> requests (run (import_done @ [CloseModal]) closed_ui) = requests (run import_done closed_ui)
   \<and> refreshes (run (import_done @ [CloseModal]) closed_ui) = []
   \<and> refreshes (run (import_done @ [ClickDone]) closed_ui) = [FetchTxns, FetchSummary]"
  by code_simp

text \<open>
  C10: when the review step is cancelled or closed, the modal closes at once and raises
  no toast; however the clear request settles afterwards, with whatever failure, the
  state is left as it is, so no error is ever shown; and no fetch of the staged rows is
  sent to check that they are gone.
\<close>

theorem C10_clear_failure_swallowed:
  "dispatch (ClearSettled fo) st = st
   \<and> (showImport st \<and> step st = 2 \<and> (ev = CloseModal \<or> ev = ClickCancel) \<longrightarrow>
        \<not> showImport (dispatch ev st)
        \<and> toasts (dispatch ev st) = toasts st
        \<and> (\<forall>fo'. dispatch (ClearSettled fo') (dispatch ev st) = dispatch ev st)
        \<and> (\<forall>b. GetStaged b \<in> set (requests (dispatch ev st)) \<longrightarrow> GetStaged b \<in> set (requests st)))"
  by (auto simp: clearStaged_settled_def modal_onClose_def cancel_review_def onClose_def
      request_def split: outcome.splits if_splits)

text \<open>A review that is cancelled, after which the clear request fails with status 500.\<close>

theorem C10_clear_failure_swallowed_witness:
  "showImport review_ui \<and> step review_ui = 2
   \<and> \<not> showImport (dispatch ClickCancel review_ui)
   \<and> toasts (dispatch ClickCancel review_ui) = toasts review_ui
   \<and> requests (dispatch ClickCancel review_ui) = [ClearStaged (Some ''b1'')]
   \<and> call server_error = Rejected ''Internal server error''
   \<and> dispatch (ClearSettled server_error) (dispatch ClickCancel review_ui)
       = dispatch ClickCancel review_ui"
proof -
  have s: "showImport review_ui" "step review_ui = 2"
    by (simp_all add: review_ui_def closed_ui_def)
  have q: "requests (dispatch ClickCancel review_ui) = [ClearStaged (Some ''b1'')]"
    by (simp add: review_ui_def closed_ui_def cancel_review_def onClose_def request_def)
  have c: "call server_error = Rejected ''Internal server error''"
    by code_simp
  show ?thesis
    using s q c C10_clear_failure_swallowed [of server_error review_ui ClickCancel]
    by blast
qed

end
